theory Spec2Isabelle
  imports Complex_Main "HOL-Library.Multiset" "HOL-Library.Char_ord" "HOL-Library.List_Lexorder"
begin

section \<open>Data model\<close>

text \<open>
  Amounts are the \<open>valor\<close> columns of the tables and frames. They are embedded as exact
  rationals, the decimal quantities the specification speaks of; rounding of binary
  floating point is outside the embedding. A date is embedded as its day number, whose
  order is the order of the ISO text \<open>YYYY-MM-DD\<close> that the queries compare.
\<close>

subsection \<open>Frames of \<open>app.py\<close>\<close>

text \<open>
  \<open>carregar_dados\<close> yields a frame with the columns \<open>data\<close>, \<open>descricao\<close>, \<open>valor\<close>,
  \<open>categoria\<close>; the same four columns serve for incomes, expenses and goals. A frame is
  the list of its rows.
\<close>

record registro =
  r_data :: nat
  r_descricao :: string
  r_valor :: rat
  r_categoria :: string

subsection \<open>Tables of \<open>database.py\<close>\<close>

text \<open>
  \<open>_create_tables\<close> declares \<open>receitas\<close> and \<open>despesas\<close> with the same seven columns and
  \<open>metas\<close> with eight. \<open>created_at\<close> and \<open>updated_at\<close> take \<open>CURRENT_TIMESTAMP\<close>, the
  reading of the clock when the statement runs.
\<close>

record transacao =
  t_id :: int
  t_data :: nat
  t_descricao :: string
  t_valor :: rat
  t_categoria :: string
  t_created_at :: nat
  t_updated_at :: nat

record meta =
  m_id :: int
  m_data_limite :: nat
  m_descricao :: string
  m_valor_meta :: rat
  m_categoria :: string
  m_status :: string
  m_created_at :: nat
  m_updated_at :: nat

text \<open>
  A table declared \<open>INTEGER PRIMARY KEY AUTOINCREMENT\<close> keeps, beside its rows, the
  largest id it has ever handed out (the engine's \<open>sqlite_sequence\<close> entry); a
  \<open>DELETE\<close> removes rows and leaves that counter alone.
\<close>

record 'r tabela =
  linhas :: "'r list"
  seq :: int

text \<open>
  The state the manager works on: the three tables, the clock reading, and the storage
  errors still to come. Each statement handed to the engine consumes the head of
  \<open>falhas\<close>; \<open>True\<close> means that the engine raises on that statement. An empty list means
  that no further statement fails. The table \<open>configuracoes\<close> is created and never
  touched by any method, so it is left out.
\<close>

record mundo =
  receitas :: "transacao tabela"
  despesas :: "transacao tabela"
  metas :: "meta tabela"
  falhas :: "bool list"
  relogio :: nat

datatype erro = ErroArmazenamento

definition tabela_vazia :: "'r tabela" where
  "tabela_vazia = \<lparr>linhas = [], seq = 0\<rparr>"

definition criar_banco :: "nat \<Rightarrow> bool list \<Rightarrow> mundo" where
  "criar_banco agora fs =
     \<lparr>receitas = tabela_vazia, despesas = tabela_vazia, metas = tabela_vazia,
      falhas = fs, relogio = agora\<rparr>"

definition persistido :: "mundo \<Rightarrow> transacao tabela \<times> transacao tabela \<times> meta tabela" where
  "persistido w = (receitas w, despesas w, metas w)"

section \<open>Aggregation in \<open>app.py\<close>\<close>


definition dashboard_saldo :: "rat \<Rightarrow> rat \<Rightarrow> rat" where
  "dashboard_saldo total_rec total_desp = total_rec - total_desp"

definition dashboard_percentual_despesas :: "rat \<Rightarrow> rat \<Rightarrow> rat" where
  "dashboard_percentual_despesas total_desp total_rec =
     (if total_rec > 0 then (total_desp / total_rec) * 100 else 0)"

text \<open>
  The goal loop (lines 456 to 478). \<open>meta['data']\<close> is the goal's deadline and
  \<open>meta['valor']\<close> its target; each sum is guarded by the emptiness of the whole frame,
  not of the selection.
\<close>

definition receitas_ate_meta :: "registro list \<Rightarrow> nat \<Rightarrow> rat" where
  "receitas_ate_meta receitas_df data_meta =
     (if receitas_df \<noteq> []
      then sum_list (map r_valor (filter (\<lambda>r. r_data r \<le> data_meta) receitas_df))
      else 0)"

definition despesas_ate_meta :: "registro list \<Rightarrow> nat \<Rightarrow> rat" where
  "despesas_ate_meta despesas_df data_meta =
     (if despesas_df \<noteq> []
      then sum_list (map r_valor (filter (\<lambda>r. r_data r \<le> data_meta) despesas_df))
      else 0)"

definition economias :: "registro list \<Rightarrow> registro list \<Rightarrow> registro \<Rightarrow> rat" where
  "economias receitas_df despesas_df m =
     receitas_ate_meta receitas_df (r_data m) - despesas_ate_meta despesas_df (r_data m)"

definition progresso :: "registro list \<Rightarrow> registro list \<Rightarrow> registro \<Rightarrow> rat" where
  "progresso receitas_df despesas_df m =
     (if r_valor m > 0
      then min ((economias receitas_df despesas_df m / r_valor m) * 100) 100
      else 0)"

text \<open>The loop writes both columns for every row of the goal frame.\<close>

definition metas_com_progresso ::
  "registro list \<Rightarrow> registro list \<Rightarrow> registro list \<Rightarrow> (registro \<times> rat \<times> rat) list" where
  "metas_com_progresso receitas_df despesas_df metas_df =
     map (\<lambda>m. (m, progresso receitas_df despesas_df m, economias receitas_df despesas_df m))
       metas_df"

section \<open>Statistics in \<open>database.py\<close>\<close>

text \<open>
  \<open>obter_estatisticas_gerais\<close> and the two per-category queries build the same date
  filter: \<open>BETWEEN\<close> when both bounds are given, one comparison when one is, nothing
  otherwise. A \<open>date\<close> object is always true in a condition, so a bound is absent only
  when it is \<open>None\<close>.
\<close>

definition data_filter :: "nat option \<Rightarrow> nat option \<Rightarrow> nat \<Rightarrow> bool" where
  "data_filter data_inicio data_fim d =
     (case data_inicio of
        Some i \<Rightarrow> (case data_fim of Some f \<Rightarrow> i \<le> d \<and> d \<le> f | None \<Rightarrow> i \<le> d)
      | None \<Rightarrow> (case data_fim of Some f \<Rightarrow> d \<le> f | None \<Rightarrow> True))"

text \<open>\<open>SUM\<close> over no rows is \<open>NULL\<close>, which reaches Python as \<open>None\<close>.\<close>

definition sql_sum :: "rat list \<Rightarrow> rat option" where
  "sql_sum vs = (if vs = [] then None else Some (sum_list vs))"

text \<open>
  \<open>result[0][0] if result and result[0][0] else 0\<close>: an aggregate query always returns
  one row, and the cell is false when it is \<open>None\<close> or zero.
\<close>

definition total_da_consulta :: "rat option \<Rightarrow> rat" where
  "total_da_consulta cel = (case cel of None \<Rightarrow> 0 | Some s \<Rightarrow> if s \<noteq> 0 then s else 0)"

definition percentual_despesas_de :: "rat \<Rightarrow> rat \<Rightarrow> rat" where
  "percentual_despesas_de total_desp total_rec =
     (if total_rec > 0 then total_desp / total_rec * 100 else 0)"

record estatisticas =
  total_receitas :: rat
  total_despesas :: rat
  saldo :: rat
  percentual_despesas :: rat
  count_receitas :: nat
  count_despesas :: nat

text \<open>
  The four aggregate queries read the tables and change nothing; the record below is what
  the method returns when the engine answers them.
\<close>

definition obter_estatisticas_gerais :: "nat option \<Rightarrow> nat option \<Rightarrow> mundo \<Rightarrow> estatisticas" where
  "obter_estatisticas_gerais data_inicio data_fim w =
     (let rs = filter (\<lambda>r. data_filter data_inicio data_fim (t_data r)) (linhas (receitas w));
          ds = filter (\<lambda>r. data_filter data_inicio data_fim (t_data r)) (linhas (despesas w));
          tr = total_da_consulta (sql_sum (map t_valor rs));
          td = total_da_consulta (sql_sum (map t_valor ds))
      in \<lparr>total_receitas = tr, total_despesas = td, saldo = tr - td,
          percentual_despesas = percentual_despesas_de td tr,
          count_receitas = length rs, count_despesas = length ds\<rparr>)"

section \<open>Statements and storage errors\<close>

text \<open>
  \<open>_execute_query\<close> and \<open>_execute_insert\<close> open a connection, run one statement, commit
  and close. An exception of the engine is logged and raised again; the commit is not
  reached, so the statement leaves no trace in the tables.
\<close>

definition proxima_falha :: "mundo \<Rightarrow> bool \<times> mundo" where
  "proxima_falha w = (case falhas w of [] \<Rightarrow> (False, w) | f # fs \<Rightarrow> (f, w\<lparr>falhas := fs\<rparr>))"

definition execute_query :: "(mundo \<Rightarrow> mundo) \<Rightarrow> mundo \<Rightarrow> (erro + unit) \<times> mundo" where
  "execute_query stmt w =
     (let (falhou, w1) = proxima_falha w
      in if falhou then (Inl ErroArmazenamento, w1) else (Inr (), stmt w1))"

definition execute_insert :: "(mundo \<Rightarrow> int \<times> mundo) \<Rightarrow> mundo \<Rightarrow> (erro + int) \<times> mundo" where
  "execute_insert stmt w =
     (let (falhou, w1) = proxima_falha w
      in if falhou then (Inl ErroArmazenamento, w1)
         else (let (last_id, w2) = stmt w1 in (Inr last_id, w2)))"

text \<open>
  Sequencing of calls that may raise, and the \<open>try\<close> / \<open>except Exception\<close> wrapper of the
  methods that answer with a boolean.
\<close>

definition entao ::
  "(mundo \<Rightarrow> (erro + 'a) \<times> mundo) \<Rightarrow> ('a \<Rightarrow> mundo \<Rightarrow> (erro + 'b) \<times> mundo)
     \<Rightarrow> mundo \<Rightarrow> (erro + 'b) \<times> mundo" where
  "entao m k w = (case m w of (Inl e, w1) \<Rightarrow> (Inl e, w1) | (Inr x, w1) \<Rightarrow> k x w1)"

definition tenta :: "(mundo \<Rightarrow> (erro + 'a) \<times> mundo) \<Rightarrow> mundo \<Rightarrow> bool \<times> mundo" where
  "tenta m w = (case m w of (Inl e, w1) \<Rightarrow> (False, w1) | (Inr x, w1) \<Rightarrow> (True, w1))"

subsection \<open>The statements on a table\<close>

text \<open>
  \<open>AUTOINCREMENT\<close>: the new id is one more than the largest id the table holds or has
  ever handed out.
\<close>

definition proximo_id :: "int list \<Rightarrow> int \<Rightarrow> int" where
  "proximo_id ids s = foldr max ids s + 1"

definition insert_transacao ::
  "nat \<Rightarrow> string \<Rightarrow> rat \<Rightarrow> string \<Rightarrow> nat \<Rightarrow> transacao tabela \<Rightarrow> int \<times> transacao tabela" where
  "insert_transacao d descricao valor categoria agora t =
     (let novo = proximo_id (map t_id (linhas t)) (seq t)
      in (novo,
          \<lparr>linhas = linhas t @
             [\<lparr>t_id = novo, t_data = d, t_descricao = descricao, t_valor = valor,
               t_categoria = categoria, t_created_at = agora, t_updated_at = agora\<rparr>],
           seq = novo\<rparr>))"

text \<open>The \<open>INSERT\<close> of a goal names four columns; \<open>status\<close> takes its default \<open>'ativa'\<close>.\<close>

definition insert_meta ::
  "nat \<Rightarrow> string \<Rightarrow> rat \<Rightarrow> string \<Rightarrow> nat \<Rightarrow> meta tabela \<Rightarrow> int \<times> meta tabela" where
  "insert_meta data_limite descricao valor_meta categoria agora t =
     (let novo = proximo_id (map m_id (linhas t)) (seq t)
      in (novo,
          \<lparr>linhas = linhas t @
             [\<lparr>m_id = novo, m_data_limite = data_limite, m_descricao = descricao,
               m_valor_meta = valor_meta, m_categoria = categoria, m_status = ''ativa'',
               m_created_at = agora, m_updated_at = agora\<rparr>],
           seq = novo\<rparr>))"

definition delete_transacao :: "int \<Rightarrow> transacao tabela \<Rightarrow> transacao tabela" where
  "delete_transacao i t = t\<lparr>linhas := filter (\<lambda>r. t_id r \<noteq> i) (linhas t)\<rparr>"

definition delete_meta :: "int \<Rightarrow> meta tabela \<Rightarrow> meta tabela" where
  "delete_meta i t = t\<lparr>linhas := filter (\<lambda>r. m_id r \<noteq> i) (linhas t)\<rparr>"

definition delete_tudo :: "'r tabela \<Rightarrow> 'r tabela" where
  "delete_tudo t = t\<lparr>linhas := []\<rparr>"

definition update_transacao ::
  "int \<Rightarrow> nat \<Rightarrow> string \<Rightarrow> rat \<Rightarrow> string \<Rightarrow> nat \<Rightarrow> transacao tabela \<Rightarrow> transacao tabela" where
  "update_transacao i d descricao valor categoria agora t =
     t\<lparr>linhas :=
         map (\<lambda>r. if t_id r = i
                   then r\<lparr>t_data := d, t_descricao := descricao, t_valor := valor,
                          t_categoria := categoria, t_updated_at := agora\<rparr>
                   else r)
           (linhas t)\<rparr>"

text \<open>
  \<open>atualizar_meta\<close> writes the status only under \<open>if status:\<close>, that is when the
  argument is neither \<open>None\<close> nor the empty string.
\<close>

definition update_meta ::
  "int \<Rightarrow> nat \<Rightarrow> string \<Rightarrow> rat \<Rightarrow> string \<Rightarrow> string option \<Rightarrow> nat \<Rightarrow> meta tabela \<Rightarrow> meta tabela" where
  "update_meta i data_limite descricao valor_meta categoria status agora t =
     t\<lparr>linhas :=
         map (\<lambda>r. if m_id r = i
                   then (case status of
                           Some s \<Rightarrow>
                             if s \<noteq> []
                             then r\<lparr>m_data_limite := data_limite, m_descricao := descricao,
                                    m_valor_meta := valor_meta, m_categoria := categoria,
                                    m_status := s, m_updated_at := agora\<rparr>
                             else r\<lparr>m_data_limite := data_limite, m_descricao := descricao,
                                    m_valor_meta := valor_meta, m_categoria := categoria,
                                    m_updated_at := agora\<rparr>
                         | None \<Rightarrow>
                             r\<lparr>m_data_limite := data_limite, m_descricao := descricao,
                               m_valor_meta := valor_meta, m_categoria := categoria,
                               m_updated_at := agora\<rparr>)
                   else r)
           (linhas t)\<rparr>"

section \<open>The record store of \<open>database.py\<close>\<close>

text \<open>
  The methods of \<open>DatabaseManager\<close>. Arguments have the types that the signatures
  annotate: a date, a string (which may be empty), a number, an integer id. No argument is
  \<open>None\<close> except where the signature allows it, so the \<open>NOT NULL\<close> constraints of the
  schema never reject a row, and the only exception a method can meet is a storage error
  of the engine. The add methods let that exception through; the delete, update, import
  and clear methods catch it, log it and answer \<open>False\<close>.
\<close>

subsection \<open>Incomes\<close>

definition adicionar_receita ::
  "nat \<Rightarrow> string \<Rightarrow> rat \<Rightarrow> string \<Rightarrow> mundo \<Rightarrow> (erro + int) \<times> mundo" where
  "adicionar_receita d descricao valor categoria =
     execute_insert
       (\<lambda>w. let (novo, t) = insert_transacao d descricao valor categoria (relogio w) (receitas w)
             in (novo, w\<lparr>receitas := t\<rparr>))"

definition excluir_receita :: "int \<Rightarrow> mundo \<Rightarrow> bool \<times> mundo" where
  "excluir_receita receita_id =
     tenta (execute_query (\<lambda>w. w\<lparr>receitas := delete_transacao receita_id (receitas w)\<rparr>))"

definition atualizar_receita ::
  "int \<Rightarrow> nat \<Rightarrow> string \<Rightarrow> rat \<Rightarrow> string \<Rightarrow> mundo \<Rightarrow> bool \<times> mundo" where
  "atualizar_receita receita_id d descricao valor categoria =
     tenta (execute_query
       (\<lambda>w. w\<lparr>receitas :=
                 update_transacao receita_id d descricao valor categoria (relogio w) (receitas w)\<rparr>))"

subsection \<open>Expenses\<close>

definition adicionar_despesa ::
  "nat \<Rightarrow> string \<Rightarrow> rat \<Rightarrow> string \<Rightarrow> mundo \<Rightarrow> (erro + int) \<times> mundo" where
  "adicionar_despesa d descricao valor categoria =
     execute_insert
       (\<lambda>w. let (novo, t) = insert_transacao d descricao valor categoria (relogio w) (despesas w)
             in (novo, w\<lparr>despesas := t\<rparr>))"

definition excluir_despesa :: "int \<Rightarrow> mundo \<Rightarrow> bool \<times> mundo" where
  "excluir_despesa despesa_id =
     tenta (execute_query (\<lambda>w. w\<lparr>despesas := delete_transacao despesa_id (despesas w)\<rparr>))"

definition atualizar_despesa ::
  "int \<Rightarrow> nat \<Rightarrow> string \<Rightarrow> rat \<Rightarrow> string \<Rightarrow> mundo \<Rightarrow> bool \<times> mundo" where
  "atualizar_despesa despesa_id d descricao valor categoria =
     tenta (execute_query
       (\<lambda>w. w\<lparr>despesas :=
                 update_transacao despesa_id d descricao valor categoria (relogio w) (despesas w)\<rparr>))"

subsection \<open>Goals\<close>

definition adicionar_meta ::
  "nat \<Rightarrow> string \<Rightarrow> rat \<Rightarrow> string \<Rightarrow> mundo \<Rightarrow> (erro + int) \<times> mundo" where
  "adicionar_meta data_limite descricao valor_meta categoria =
     execute_insert
       (\<lambda>w. let (novo, t) = insert_meta data_limite descricao valor_meta categoria (relogio w) (metas w)
             in (novo, w\<lparr>metas := t\<rparr>))"

definition excluir_meta :: "int \<Rightarrow> mundo \<Rightarrow> bool \<times> mundo" where
  "excluir_meta meta_id =
     tenta (execute_query (\<lambda>w. w\<lparr>metas := delete_meta meta_id (metas w)\<rparr>))"

definition atualizar_meta ::
  "int \<Rightarrow> nat \<Rightarrow> string \<Rightarrow> rat \<Rightarrow> string \<Rightarrow> string option \<Rightarrow> mundo \<Rightarrow> bool \<times> mundo" where
  "atualizar_meta meta_id data_limite descricao valor_meta categoria status =
     tenta (execute_query
       (\<lambda>w. w\<lparr>metas :=
                 update_meta meta_id data_limite descricao valor_meta categoria status
                   (relogio w) (metas w)\<rparr>))"

subsection \<open>Listing\<close>

text \<open>
  Each listing method builds \<open>SELECT * FROM t WHERE 1=1\<close>, adds one condition per
  argument that is true in Python (a date that is not \<open>None\<close>, a string that is neither
  \<open>None\<close> nor empty) and ends with a single \<open>ORDER BY\<close> key. The statement says nothing
  about rows whose keys are equal, so every arrangement of the selected rows in which the
  key runs in the requested direction is a possible answer. The predicates below hold of
  a state and a frame when the method can return that frame in that state; an exception
  of the engine is raised to the caller and changes nothing.
\<close>

definition filtro_transacao :: "nat option \<Rightarrow> nat option \<Rightarrow> string option \<Rightarrow> transacao \<Rightarrow> bool" where
  "filtro_transacao data_inicio data_fim categoria r =
     ((case data_inicio of Some i \<Rightarrow> i \<le> t_data r | None \<Rightarrow> True)
      \<and> (case data_fim of Some f \<Rightarrow> t_data r \<le> f | None \<Rightarrow> True)
      \<and> (case categoria of Some c \<Rightarrow> c = [] \<or> t_categoria r = c | None \<Rightarrow> True))"

definition filtro_meta :: "string option \<Rightarrow> string option \<Rightarrow> meta \<Rightarrow> bool" where
  "filtro_meta status categoria r =
     ((case status of Some s \<Rightarrow> s = [] \<or> m_status r = s | None \<Rightarrow> True)
      \<and> (case categoria of Some c \<Rightarrow> c = [] \<or> m_categoria r = c | None \<Rightarrow> True))"

definition obter_receitas ::
  "nat option \<Rightarrow> nat option \<Rightarrow> string option \<Rightarrow> mundo \<Rightarrow> transacao list \<Rightarrow> bool" where
  "obter_receitas data_inicio data_fim categoria w df =
     (mset df = mset (filter (filtro_transacao data_inicio data_fim categoria) (linhas (receitas w)))
      \<and> sorted_wrt (\<lambda>a b. t_data b \<le> t_data a) df)"

definition obter_despesas ::
  "nat option \<Rightarrow> nat option \<Rightarrow> string option \<Rightarrow> mundo \<Rightarrow> transacao list \<Rightarrow> bool" where
  "obter_despesas data_inicio data_fim categoria w df =
     (mset df = mset (filter (filtro_transacao data_inicio data_fim categoria) (linhas (despesas w)))
      \<and> sorted_wrt (\<lambda>a b. t_data b \<le> t_data a) df)"

definition obter_metas :: "string option \<Rightarrow> string option \<Rightarrow> mundo \<Rightarrow> meta list \<Rightarrow> bool" where
  "obter_metas status categoria w df =
     (mset df = mset (filter (filtro_meta status categoria) (linhas (metas w)))
      \<and> sorted_wrt (\<lambda>a b. m_data_limite a \<le> m_data_limite b) df)"

subsection \<open>Totals per category\<close>






subsection \<open>Backup and restore\<close>

text \<open>
  The dictionary of frames that \<open>exportar_dados\<close> returns and \<open>importar_dados\<close> reads; a
  key may be missing from the argument of \<open>importar_dados\<close>.
\<close>

record dados =
  d_receitas :: "transacao list option"
  d_despesas :: "transacao list option"
  d_metas :: "meta list option"

definition exportar_dados :: "mundo \<Rightarrow> dados \<Rightarrow> bool" where
  "exportar_dados w d =
     (case d_receitas d of
        None \<Rightarrow> False
      | Some rs \<Rightarrow>
         (case d_despesas d of
            None \<Rightarrow> False
          | Some ds \<Rightarrow>
             (case d_metas d of
                None \<Rightarrow> False
              | Some ms \<Rightarrow>
                 obter_receitas None None None w rs
                 \<and> obter_despesas None None None w ds
                 \<and> obter_metas None None w ms)))"

text \<open>
  The three loops of \<open>importar_dados\<close>: one add call per row of the frame, in the order
  of the frame, reading the four columns and nothing else. An exception leaves the loop.
\<close>

fun importar_receitas :: "transacao list \<Rightarrow> mundo \<Rightarrow> (erro + unit) \<times> mundo" where
  "importar_receitas [] w = (Inr (), w)"
| "importar_receitas (row # rows) w =
     entao (adicionar_receita (t_data row) (t_descricao row) (t_valor row) (t_categoria row))
       (\<lambda>_. importar_receitas rows) w"

fun importar_despesas :: "transacao list \<Rightarrow> mundo \<Rightarrow> (erro + unit) \<times> mundo" where
  "importar_despesas [] w = (Inr (), w)"
| "importar_despesas (row # rows) w =
     entao (adicionar_despesa (t_data row) (t_descricao row) (t_valor row) (t_categoria row))
       (\<lambda>_. importar_despesas rows) w"

fun importar_metas :: "meta list \<Rightarrow> mundo \<Rightarrow> (erro + unit) \<times> mundo" where
  "importar_metas [] w = (Inr (), w)"
| "importar_metas (row # rows) w =
     entao (adicionar_meta (m_data_limite row) (m_descricao row) (m_valor_meta row)
              (m_categoria row))
       (\<lambda>_. importar_metas rows) w"

text \<open>\<open>'k' in dados and not dados['k'].empty\<close> guards each loop.\<close>

definition quadro :: "'r list option \<Rightarrow> 'r list" where
  "quadro df = (case df of None \<Rightarrow> [] | Some rows \<Rightarrow> if rows \<noteq> [] then rows else [])"

definition importar_dados :: "dados \<Rightarrow> mundo \<Rightarrow> bool \<times> mundo" where
  "importar_dados d =
     tenta
       (entao (execute_query (\<lambda>w. w\<lparr>receitas := delete_tudo (receitas w)\<rparr>)) (\<lambda>_.
        entao (execute_query (\<lambda>w. w\<lparr>despesas := delete_tudo (despesas w)\<rparr>)) (\<lambda>_.
        entao (execute_query (\<lambda>w. w\<lparr>metas := delete_tudo (metas w)\<rparr>)) (\<lambda>_.
        entao (importar_receitas (quadro (d_receitas d))) (\<lambda>_.
        entao (importar_despesas (quadro (d_despesas d))) (\<lambda>_.
        importar_metas (quadro (d_metas d))))))))"

definition limpar_dados :: "mundo \<Rightarrow> bool \<times> mundo" where
  "limpar_dados =
     tenta
       (entao (execute_query (\<lambda>w. w\<lparr>receitas := delete_tudo (receitas w)\<rparr>)) (\<lambda>_.
        entao (execute_query (\<lambda>w. w\<lparr>despesas := delete_tudo (despesas w)\<rparr>)) (\<lambda>_.
        execute_query (\<lambda>w. w\<lparr>metas := delete_tudo (metas w)\<rparr>))))"

subsection \<open>Well-formed states\<close>

text \<open>
  What the engine maintains for an \<open>AUTOINCREMENT\<close> key: the ids of a table are pairwise
  different and none exceeds the counter of the table.
\<close>

definition ids_em_ordem :: "int list \<Rightarrow> int \<Rightarrow> bool" where
  "ids_em_ordem ids s = (distinct ids \<and> list_all (\<lambda>i. i \<le> s) ids)"

definition bem_formado :: "mundo \<Rightarrow> bool" where
  "bem_formado w =
     (ids_em_ordem (map t_id (linhas (receitas w))) (seq (receitas w))
      \<and> ids_em_ordem (map t_id (linhas (despesas w))) (seq (despesas w))
      \<and> ids_em_ordem (map m_id (linhas (metas w))) (seq (metas w)))"

subsection \<open>What an import leaves in a table\<close>

text \<open>
  The four columns that \<open>importar_dados\<close> reads from a row, and the table after the
  inserts of one of its loops when none of them fails.
\<close>

definition campos_transacao :: "transacao \<Rightarrow> nat \<times> string \<times> rat \<times> string" where
  "campos_transacao r = (t_data r, t_descricao r, t_valor r, t_categoria r)"

definition campos_meta :: "meta \<Rightarrow> nat \<times> string \<times> rat \<times> string" where
  "campos_meta r = (m_data_limite r, m_descricao r, m_valor_meta r, m_categoria r)"

fun inserir_transacoes :: "transacao list \<Rightarrow> nat \<Rightarrow> transacao tabela \<Rightarrow> transacao tabela" where
  "inserir_transacoes [] agora t = t"
| "inserir_transacoes (row # rows) agora t =
     inserir_transacoes rows agora
       (snd (insert_transacao (t_data row) (t_descricao row) (t_valor row) (t_categoria row)
               agora t))"

fun inserir_metas :: "meta list \<Rightarrow> nat \<Rightarrow> meta tabela \<Rightarrow> meta tabela" where
  "inserir_metas [] agora t = t"
| "inserir_metas (row # rows) agora t =
     inserir_metas rows agora
       (snd (insert_meta (m_data_limite row) (m_descricao row) (m_valor_meta row)
               (m_categoria row) agora t))"

subsection \<open>The orders the specification asks for\<close>


definition spec_ordem_metas :: "meta list \<Rightarrow> bool" where
  "spec_ordem_metas df =
     sorted_wrt (\<lambda>a b. m_data_limite a < m_data_limite b
                    \<or> (m_data_limite a = m_data_limite b \<and> m_id a < m_id b)) df"


section \<open>Example data\<close>

text \<open>
  The scenario of the specification: an income of 5000 on 2024-01-10, an expense of 1200
  on 2024-02-01 and a goal of 4000 due on 2024-03-01 (day numbers 738895, 738917 and
  738946), with a second goal of 1000.
\<close>

definition ex_receitas_df :: "registro list" where
  "ex_receitas_df =
     [\<lparr>r_data = 738895, r_descricao = ''Salario'', r_valor = 5000, r_categoria = ''Salario''\<rparr>]"

definition ex_despesas_df :: "registro list" where
  "ex_despesas_df =
     [\<lparr>r_data = 738917, r_descricao = ''Aluguel'', r_valor = 1200, r_categoria = ''Moradia''\<rparr>]"

definition ex_meta :: registro where
  "ex_meta = \<lparr>r_data = 738946, r_descricao = ''Viagem'', r_valor = 4000, r_categoria = ''Viagem''\<rparr>"

definition ex_meta_pequena :: registro where
  "ex_meta_pequena =
     \<lparr>r_data = 738946, r_descricao = ''Livros'', r_valor = 1000, r_categoria = ''Compras''\<rparr>"



text \<open>
  A store with two incomes of the same date, two expenses with the same amount in
  different categories and one goal whose status has been set to \<open>concluida\<close>, and the
  dictionary of frames holding the same rows.
\<close>

definition ex_receita :: transacao where
  "ex_receita =
     \<lparr>t_id = 1, t_data = 738895, t_descricao = ''Salario'', t_valor = 5000,
      t_categoria = ''Salario'', t_created_at = 0, t_updated_at = 0\<rparr>"

definition ex_receita2 :: transacao where
  "ex_receita2 =
     \<lparr>t_id = 2, t_data = 738895, t_descricao = ''Projeto'', t_valor = 800,
      t_categoria = ''Freelance'', t_created_at = 0, t_updated_at = 0\<rparr>"

definition ex_despesa :: transacao where
  "ex_despesa =
     \<lparr>t_id = 1, t_data = 738917, t_descricao = ''Mercado'', t_valor = 1200,
      t_categoria = ''Alimentacao'', t_created_at = 0, t_updated_at = 0\<rparr>"

definition ex_despesa2 :: transacao where
  "ex_despesa2 =
     \<lparr>t_id = 2, t_data = 738917, t_descricao = ''Aluguel'', t_valor = 1200,
      t_categoria = ''Moradia'', t_created_at = 0, t_updated_at = 0\<rparr>"

definition ex_meta_bd :: meta where
  "ex_meta_bd =
     \<lparr>m_id = 1, m_data_limite = 738946, m_descricao = ''Viagem'', m_valor_meta = 4000,
      m_categoria = ''Viagem'', m_status = ''concluida'', m_created_at = 0, m_updated_at = 0\<rparr>"

definition ex_mundo :: mundo where
  "ex_mundo =
     \<lparr>receitas = \<lparr>linhas = [ex_receita, ex_receita2], seq = 2\<rparr>,
      despesas = \<lparr>linhas = [ex_despesa, ex_despesa2], seq = 2\<rparr>,
      metas = \<lparr>linhas = [ex_meta_bd], seq = 1\<rparr>,
      falhas = [], relogio = 0\<rparr>"


definition ex_dados :: dados where
  "ex_dados =
     \<lparr>d_receitas = Some [ex_receita, ex_receita2],
      d_despesas = Some [ex_despesa, ex_despesa2],
      d_metas = Some [ex_meta_bd]\<rparr>"

section \<open>Shared lemmas\<close>



lemma total_da_consulta_sum: "total_da_consulta (sql_sum vs) = sum_list vs"
  by (simp add: total_da_consulta_def sql_sum_def)


lemmas bd_defs = adicionar_receita_def adicionar_despesa_def adicionar_meta_def
  excluir_receita_def excluir_despesa_def excluir_meta_def
  atualizar_receita_def atualizar_despesa_def atualizar_meta_def
  execute_query_def execute_insert_def proxima_falha_def tenta_def entao_def
  insert_transacao_def insert_meta_def delete_transacao_def delete_meta_def delete_tudo_def
  update_transacao_def update_meta_def proximo_id_def Let_def
  criar_banco_def tabela_vazia_def quadro_def importar_dados_def limpar_dados_def persistido_def

lemmas ex_bd_defs = ex_receita_def ex_receita2_def ex_despesa_def ex_despesa2_def ex_meta_bd_def
  ex_mundo_def

lemma proxima_falha_nil: "falhas w = [] \<Longrightarrow> proxima_falha w = (False, w)"
  by (simp add: proxima_falha_def)

lemma proxima_falha_cons: "falhas w = f # fs \<Longrightarrow> proxima_falha w = (f, w\<lparr>falhas := fs\<rparr>)"
  by (simp add: proxima_falha_def)

lemma execute_query_ok: "falhas w = [] \<Longrightarrow> execute_query stmt w = (Inr (), stmt w)"
  by (simp add: execute_query_def proxima_falha_nil)

lemma execute_query_falha:
  "falhas w = True # fs \<Longrightarrow> execute_query stmt w = (Inl ErroArmazenamento, w\<lparr>falhas := fs\<rparr>)"
  by (simp add: execute_query_def proxima_falha_cons)

lemma execute_insert_ok:
  "falhas w = [] \<Longrightarrow> execute_insert stmt w = (Inr (fst (stmt w)), snd (stmt w))"
  by (simp add: execute_insert_def proxima_falha_nil split_def Let_def)

lemma execute_insert_falha:
  "falhas w = True # fs \<Longrightarrow> execute_insert stmt w = (Inl ErroArmazenamento, w\<lparr>falhas := fs\<rparr>)"
  by (simp add: execute_insert_def proxima_falha_cons)

lemma tenta_falha: "m w = (Inl e, w1) \<Longrightarrow> tenta m w = (False, w1)"
  by (simp add: tenta_def)

lemma tenta_ok: "m w = (Inr x, w1) \<Longrightarrow> tenta m w = (True, w1)"
  by (simp add: tenta_def)

lemma entao_falha: "m w = (Inl e, w1) \<Longrightarrow> entao m k w = (Inl e, w1)"
  by (simp add: entao_def)

lemma entao_ok: "m w = (Inr x, w1) \<Longrightarrow> entao m k w = k x w1"
  by (simp add: entao_def)

lemma persistido_falhas: "persistido (w\<lparr>falhas := fs\<rparr>) = persistido w"
  by (simp add: persistido_def)

lemma foldr_max_ge: "s \<le> foldr max ids (s::int)"
  by (induction ids) auto

lemma foldr_max_mem: "i \<in> set ids \<Longrightarrow> i \<le> foldr max ids (s::int)"
  by (induction ids) auto

lemma proximo_id_maior: "s < proximo_id ids s"
  using foldr_max_ge [of s ids] by (simp add: proximo_id_def)

lemma proximo_id_novo: "i \<in> set ids \<Longrightarrow> i < proximo_id ids s"
  using foldr_max_mem [of i ids s] by (simp add: proximo_id_def)

lemma filter_id_ausente: "i \<notin> set (map f xs) \<Longrightarrow> filter (\<lambda>r. f r \<noteq> i) xs = xs"
  by (induction xs) auto

lemma map_id_ausente:
  "i \<notin> set (map f xs) \<Longrightarrow> map (\<lambda>r. if f r = i then g r else r) xs = xs"
  by (induction xs) auto

lemma delete_transacao_ausente:
  "i \<notin> set (map t_id (linhas t)) \<Longrightarrow> delete_transacao i t = t"
  by (simp add: delete_transacao_def filter_id_ausente)

lemma delete_meta_ausente:
  "i \<notin> set (map m_id (linhas t)) \<Longrightarrow> delete_meta i t = t"
  by (simp add: delete_meta_def filter_id_ausente)

lemma update_transacao_ausente:
  "i \<notin> set (map t_id (linhas t)) \<Longrightarrow> update_transacao i d s v c agora t = t"
  by (simp add: update_transacao_def map_id_ausente)

lemma update_meta_ausente:
  "i \<notin> set (map m_id (linhas t)) \<Longrightarrow> update_meta i d s v c st agora t = t"
  by (simp add: update_meta_def map_id_ausente)

lemma delete_transacao_remove: "i \<notin> set (map t_id (linhas (delete_transacao i t)))"
  by (auto simp add: delete_transacao_def)

lemma delete_meta_remove: "i \<notin> set (map m_id (linhas (delete_meta i t)))"
  by (auto simp add: delete_meta_def)

lemma excluir_receita_ok:
  "falhas w = [] \<Longrightarrow> excluir_receita i w = (True, w\<lparr>receitas := delete_transacao i (receitas w)\<rparr>)"
  by (simp add: excluir_receita_def tenta_def execute_query_ok)

lemma excluir_despesa_ok:
  "falhas w = [] \<Longrightarrow> excluir_despesa i w = (True, w\<lparr>despesas := delete_transacao i (despesas w)\<rparr>)"
  by (simp add: excluir_despesa_def tenta_def execute_query_ok)

lemma excluir_meta_ok:
  "falhas w = [] \<Longrightarrow> excluir_meta i w = (True, w\<lparr>metas := delete_meta i (metas w)\<rparr>)"
  by (simp add: excluir_meta_def tenta_def execute_query_ok)

lemma atualizar_receita_ok:
  "falhas w = [] \<Longrightarrow> atualizar_receita i d s v c w =
     (True, w\<lparr>receitas := update_transacao i d s v c (relogio w) (receitas w)\<rparr>)"
  by (simp add: atualizar_receita_def tenta_def execute_query_ok)

lemma atualizar_despesa_ok:
  "falhas w = [] \<Longrightarrow> atualizar_despesa i d s v c w =
     (True, w\<lparr>despesas := update_transacao i d s v c (relogio w) (despesas w)\<rparr>)"
  by (simp add: atualizar_despesa_def tenta_def execute_query_ok)

lemma atualizar_meta_ok:
  "falhas w = [] \<Longrightarrow> atualizar_meta i d s v c st w =
     (True, w\<lparr>metas := update_meta i d s v c st (relogio w) (metas w)\<rparr>)"
  by (simp add: atualizar_meta_def tenta_def execute_query_ok)

lemma quadro_sem_id:
  assumes "mset df = mset (filter P xs)" and "i \<notin> set (map f xs)"
  shows "i \<notin> set (map f df)"
proof -
  have "set df = set (filter P xs)" using assms(1) by (rule mset_eq_setD)
  then show ?thesis using assms(2) by auto
qed














lemma adicionar_receita_ok:
  "falhas w = [] \<Longrightarrow> adicionar_receita d s v c w =
     (Inr (fst (insert_transacao d s v c (relogio w) (receitas w))),
      w\<lparr>receitas := snd (insert_transacao d s v c (relogio w) (receitas w))\<rparr>)"
  by (simp add: adicionar_receita_def execute_insert_ok split_def Let_def)

lemma adicionar_despesa_ok:
  "falhas w = [] \<Longrightarrow> adicionar_despesa d s v c w =
     (Inr (fst (insert_transacao d s v c (relogio w) (despesas w))),
      w\<lparr>despesas := snd (insert_transacao d s v c (relogio w) (despesas w))\<rparr>)"
  by (simp add: adicionar_despesa_def execute_insert_ok split_def Let_def)

lemma adicionar_meta_ok:
  "falhas w = [] \<Longrightarrow> adicionar_meta d s v c w =
     (Inr (fst (insert_meta d s v c (relogio w) (metas w))),
      w\<lparr>metas := snd (insert_meta d s v c (relogio w) (metas w))\<rparr>)"
  by (simp add: adicionar_meta_def execute_insert_ok split_def Let_def)

lemma importar_receitas_ok:
  "falhas w = [] \<Longrightarrow> importar_receitas rows w =
     (Inr (), w\<lparr>receitas := inserir_transacoes rows (relogio w) (receitas w)\<rparr>)"
proof (induction rows arbitrary: w)
  case Nil
  then show ?case by simp
next
  case (Cons row rows)
  let ?w1 = "w\<lparr>receitas := snd (insert_transacao (t_data row) (t_descricao row) (t_valor row)
      (t_categoria row) (relogio w) (receitas w))\<rparr>"
  have f1: "falhas ?w1 = []" using Cons.prems by simp
  show ?case
    using Cons.IH [OF f1] by (simp add: entao_def adicionar_receita_ok [OF Cons.prems])
qed

lemma importar_despesas_ok:
  "falhas w = [] \<Longrightarrow> importar_despesas rows w =
     (Inr (), w\<lparr>despesas := inserir_transacoes rows (relogio w) (despesas w)\<rparr>)"
proof (induction rows arbitrary: w)
  case Nil
  then show ?case by simp
next
  case (Cons row rows)
  let ?w1 = "w\<lparr>despesas := snd (insert_transacao (t_data row) (t_descricao row) (t_valor row)
      (t_categoria row) (relogio w) (despesas w))\<rparr>"
  have f1: "falhas ?w1 = []" using Cons.prems by simp
  show ?case
    using Cons.IH [OF f1] by (simp add: entao_def adicionar_despesa_ok [OF Cons.prems])
qed

lemma importar_metas_ok:
  "falhas w = [] \<Longrightarrow> importar_metas rows w =
     (Inr (), w\<lparr>metas := inserir_metas rows (relogio w) (metas w)\<rparr>)"
proof (induction rows arbitrary: w)
  case Nil
  then show ?case by simp
next
  case (Cons row rows)
  let ?w1 = "w\<lparr>metas := snd (insert_meta (m_data_limite row) (m_descricao row) (m_valor_meta row)
      (m_categoria row) (relogio w) (metas w))\<rparr>"
  have f1: "falhas ?w1 = []" using Cons.prems by simp
  show ?case
    using Cons.IH [OF f1] by (simp add: entao_def adicionar_meta_ok [OF Cons.prems])
qed

lemma importar_dados_ok:
  assumes "falhas w = []"
  shows "importar_dados d w =
     (True,
      w\<lparr>receitas := inserir_transacoes (quadro (d_receitas d)) (relogio w)
                       (delete_tudo (receitas w)),
        despesas := inserir_transacoes (quadro (d_despesas d)) (relogio w)
                       (delete_tudo (despesas w)),
        metas := inserir_metas (quadro (d_metas d)) (relogio w) (delete_tudo (metas w))\<rparr>)"
  using assms
  by (simp add: importar_dados_def tenta_def entao_def execute_query_ok
      importar_receitas_ok importar_despesas_ok importar_metas_ok)

lemma campos_inserir_transacoes:
  "map campos_transacao (linhas (inserir_transacoes rows agora t))
     = map campos_transacao (linhas t) @ map campos_transacao rows"
  by (induction rows arbitrary: t) (simp_all add: insert_transacao_def Let_def campos_transacao_def)

lemma campos_inserir_metas:
  "map campos_meta (linhas (inserir_metas rows agora t))
     = map campos_meta (linhas t) @ map campos_meta rows"
  by (induction rows arbitrary: t) (simp_all add: insert_meta_def Let_def campos_meta_def)

lemma proximo_id_cresce: "proximo_id ids s < proximo_id (ids @ [proximo_id ids s]) (proximo_id ids s)"
proof -
  have "proximo_id ids s \<le> foldr max ids (proximo_id ids s)" by (rule foldr_max_ge)
  then show ?thesis by (simp add: proximo_id_def)
qed

lemma ids_inserir_transacoes:
  "r \<in> set (linhas (inserir_transacoes rows agora t)) \<Longrightarrow>
     r \<in> set (linhas t) \<or> proximo_id (map t_id (linhas t)) (seq t) \<le> t_id r"
proof (induction rows arbitrary: t)
  case Nil
  then show ?case by simp
next
  case (Cons row rows)
  let ?n = "proximo_id (map t_id (linhas t)) (seq t)"
  let ?t1 = "snd (insert_transacao (t_data row) (t_descricao row) (t_valor row)
      (t_categoria row) agora t)"
  have l1: "map t_id (linhas ?t1) = map t_id (linhas t) @ [?n]" and s1: "seq ?t1 = ?n"
    by (simp_all add: insert_transacao_def Let_def)
  have m: "?n < proximo_id (map t_id (linhas ?t1)) (seq ?t1)"
    unfolding l1 s1 by (rule proximo_id_cresce)
  have "r \<in> set (linhas (inserir_transacoes rows agora ?t1))"
    using Cons.prems by simp
  then have "r \<in> set (linhas ?t1) \<or> proximo_id (map t_id (linhas ?t1)) (seq ?t1) \<le> t_id r"
    by (rule Cons.IH)
  then show ?case
  proof
    assume "r \<in> set (linhas ?t1)"
    then show ?thesis by (auto simp add: insert_transacao_def Let_def)
  next
    assume "proximo_id (map t_id (linhas ?t1)) (seq ?t1) \<le> t_id r"
    with m show ?thesis by simp
  qed
qed

lemma ids_inserir_metas:
  "r \<in> set (linhas (inserir_metas rows agora t)) \<Longrightarrow>
     r \<in> set (linhas t)
     \<or> (proximo_id (map m_id (linhas t)) (seq t) \<le> m_id r \<and> m_status r = ''ativa'')"
proof (induction rows arbitrary: t)
  case Nil
  then show ?case by simp
next
  case (Cons row rows)
  let ?n = "proximo_id (map m_id (linhas t)) (seq t)"
  let ?t1 = "snd (insert_meta (m_data_limite row) (m_descricao row) (m_valor_meta row)
      (m_categoria row) agora t)"
  have l1: "map m_id (linhas ?t1) = map m_id (linhas t) @ [?n]" and s1: "seq ?t1 = ?n"
    by (simp_all add: insert_meta_def Let_def)
  have m: "?n < proximo_id (map m_id (linhas ?t1)) (seq ?t1)"
    unfolding l1 s1 by (rule proximo_id_cresce)
  have "r \<in> set (linhas (inserir_metas rows agora ?t1))"
    using Cons.prems by simp
  then have "r \<in> set (linhas ?t1)
     \<or> (proximo_id (map m_id (linhas ?t1)) (seq ?t1) \<le> m_id r \<and> m_status r = ''ativa'')"
    by (rule Cons.IH)
  then show ?case
  proof
    assume "r \<in> set (linhas ?t1)"
    then show ?thesis by (auto simp add: insert_meta_def Let_def)
  next
    assume "proximo_id (map m_id (linhas ?t1)) (seq ?t1) \<le> m_id r \<and> m_status r = ''ativa''"
    with m show ?thesis by simp
  qed
qed

lemma novos_ids_transacoes:
  assumes "r \<in> set (linhas (inserir_transacoes rows agora (delete_tudo t)))"
    and "ids_em_ordem (map t_id (linhas t)) (seq t)"
  shows "seq t < t_id r \<and> t_id r \<notin> set (map t_id (linhas t))"
proof -
  have "r \<in> set (linhas (delete_tudo t))
      \<or> proximo_id (map t_id (linhas (delete_tudo t))) (seq (delete_tudo t)) \<le> t_id r"
    using assms(1) by (rule ids_inserir_transacoes)
  then have a: "seq t < t_id r" by (simp add: delete_tudo_def proximo_id_def)
  have "\<forall>i \<in> set (map t_id (linhas t)). i \<le> seq t"
    using assms(2) by (simp add: ids_em_ordem_def list_all_iff)
  with a show ?thesis by auto
qed

lemma novos_ids_metas:
  assumes "r \<in> set (linhas (inserir_metas rows agora (delete_tudo t)))"
    and "ids_em_ordem (map m_id (linhas t)) (seq t)"
  shows "seq t < m_id r \<and> m_id r \<notin> set (map m_id (linhas t)) \<and> m_status r = ''ativa''"
proof -
  have "r \<in> set (linhas (delete_tudo t))
      \<or> (proximo_id (map m_id (linhas (delete_tudo t))) (seq (delete_tudo t)) \<le> m_id r
          \<and> m_status r = ''ativa'')"
    using assms(1) by (rule ids_inserir_metas)
  then have a: "seq t < m_id r \<and> m_status r = ''ativa''"
    by (simp add: delete_tudo_def proximo_id_def)
  have "\<forall>i \<in> set (map m_id (linhas t)). i \<le> seq t"
    using assms(2) by (simp add: ids_em_ordem_def list_all_iff)
  with a show ?thesis by auto
qed

lemma quadro_exportado:
  assumes "exportar_dados w d"
  shows "mset (quadro (d_receitas d)) = mset (linhas (receitas w))"
    and "mset (quadro (d_despesas d)) = mset (linhas (despesas w))"
    and "mset (quadro (d_metas d)) = mset (linhas (metas w))"
  using assms
  by (auto simp add: exportar_dados_def obter_receitas_def obter_despesas_def obter_metas_def
      filtro_transacao_def filtro_meta_def quadro_def split: option.splits)

lemma ids_em_ordem_insert:
  assumes "ids_em_ordem ids s"
  shows "ids_em_ordem (ids @ [proximo_id ids s]) (proximo_id ids s)"
proof -
  have n: "\<forall>i \<in> set ids. i < proximo_id ids s" by (simp add: proximo_id_novo)
  then have "proximo_id ids s \<notin> set ids" by auto
  moreover have "list_all (\<lambda>i. i \<le> proximo_id ids s) ids"
    using n by (auto simp add: list_all_iff)
  ultimately show ?thesis using assms by (simp add: ids_em_ordem_def)
qed

lemma ids_em_ordem_filter:
  assumes "ids_em_ordem (map f xs) s"
  shows "ids_em_ordem (map f (filter P xs)) s"
  using assms by (auto simp add: ids_em_ordem_def list_all_iff distinct_map_filter)

lemma bem_formado_tabelas:
  "bem_formado (w\<lparr>falhas := fs\<rparr>) = bem_formado w"
  by (simp add: bem_formado_def)

lemma insert_transacao_ids:
  "ids_em_ordem (map t_id (linhas t)) (seq t) \<Longrightarrow>
   ids_em_ordem (map t_id (linhas (snd (insert_transacao d s v c agora t))))
     (seq (snd (insert_transacao d s v c agora t)))"
  by (simp add: insert_transacao_def Let_def ids_em_ordem_insert)

lemma insert_meta_ids:
  "ids_em_ordem (map m_id (linhas t)) (seq t) \<Longrightarrow>
   ids_em_ordem (map m_id (linhas (snd (insert_meta d s v c agora t))))
     (seq (snd (insert_meta d s v c agora t)))"
  by (simp add: insert_meta_def Let_def ids_em_ordem_insert)

lemma update_transacao_ids:
  "map t_id (linhas (update_transacao i d s v c agora t)) = map t_id (linhas t)
   \<and> seq (update_transacao i d s v c agora t) = seq t"
  by (simp add: update_transacao_def comp_def if_distrib [of t_id] cong: if_cong)

lemma update_meta_ids:
  "map m_id (linhas (update_meta i d s v c st agora t)) = map m_id (linhas t)
   \<and> seq (update_meta i d s v c st agora t) = seq t"
  by (simp add: update_meta_def comp_def if_distrib [of m_id] cong: if_cong
      split: option.splits)

lemma execute_query_inv:
  assumes "\<And>w. bem_formado w \<Longrightarrow> bem_formado (stmt w)" and "bem_formado w"
  shows "bem_formado (snd (execute_query stmt w))"
  using assms
  by (cases "falhas w")
    (auto simp add: execute_query_def proxima_falha_def bem_formado_tabelas)

lemma execute_insert_inv:
  assumes "\<And>w. bem_formado w \<Longrightarrow> bem_formado (snd (stmt w))" and "bem_formado w"
  shows "bem_formado (snd (execute_insert stmt w))"
  using assms
  by (cases "falhas w")
    (auto simp add: execute_insert_def proxima_falha_def bem_formado_tabelas split_def Let_def)

lemma entao_inv:
  assumes "\<And>w. bem_formado w \<Longrightarrow> bem_formado (snd (m w))"
    and "\<And>x w. bem_formado w \<Longrightarrow> bem_formado (snd (k x w))"
    and "bem_formado w"
  shows "bem_formado (snd (entao m k w))"
proof (cases "m w")
  case (Pair r w1)
  have w1: "bem_formado w1" using assms(1) [OF assms(3)] Pair by simp
  show ?thesis
  proof (cases r)
    case (Inl e)
    with Pair w1 show ?thesis by (simp add: entao_def)
  next
    case (Inr x)
    with Pair assms(2) [OF w1, of x] show ?thesis by (simp add: entao_def)
  qed
qed

lemma tenta_inv:
  assumes "\<And>w. bem_formado w \<Longrightarrow> bem_formado (snd (m w))" and "bem_formado w"
  shows "bem_formado (snd (tenta m w))"
proof (cases "m w")
  case (Pair r w1)
  have "bem_formado w1" using assms(1) [OF assms(2)] Pair by simp
  with Pair show ?thesis by (cases r) (simp_all add: tenta_def)
qed

lemma adicionar_inv:
  assumes "bem_formado w"
  shows "bem_formado (snd (adicionar_receita d s v c w))"
    and "bem_formado (snd (adicionar_despesa d s v c w))"
    and "bem_formado (snd (adicionar_meta d s v c w))"
proof -
  show "bem_formado (snd (adicionar_receita d s v c w))"
    unfolding adicionar_receita_def
    by (rule execute_insert_inv [OF _ assms])
      (simp add: bem_formado_def split_def Let_def insert_transacao_ids)
  show "bem_formado (snd (adicionar_despesa d s v c w))"
    unfolding adicionar_despesa_def
    by (rule execute_insert_inv [OF _ assms])
      (simp add: bem_formado_def split_def Let_def insert_transacao_ids)
  show "bem_formado (snd (adicionar_meta d s v c w))"
    unfolding adicionar_meta_def
    by (rule execute_insert_inv [OF _ assms])
      (simp add: bem_formado_def split_def Let_def insert_meta_ids)
qed

lemma excluir_inv:
  assumes "bem_formado w"
  shows "bem_formado (snd (excluir_receita i w))"
    and "bem_formado (snd (excluir_despesa i w))"
    and "bem_formado (snd (excluir_meta i w))"
proof -
  show "bem_formado (snd (excluir_receita i w))"
    unfolding excluir_receita_def
    by (rule tenta_inv [OF execute_query_inv assms])
      (simp_all add: bem_formado_def delete_transacao_def ids_em_ordem_filter)
  show "bem_formado (snd (excluir_despesa i w))"
    unfolding excluir_despesa_def
    by (rule tenta_inv [OF execute_query_inv assms])
      (simp_all add: bem_formado_def delete_transacao_def ids_em_ordem_filter)
  show "bem_formado (snd (excluir_meta i w))"
    unfolding excluir_meta_def
    by (rule tenta_inv [OF execute_query_inv assms])
      (simp_all add: bem_formado_def delete_meta_def ids_em_ordem_filter)
qed

lemma atualizar_inv:
  assumes "bem_formado w"
  shows "bem_formado (snd (atualizar_receita i d s v c w))"
    and "bem_formado (snd (atualizar_despesa i d s v c w))"
    and "bem_formado (snd (atualizar_meta i d s v c st w))"
proof -
  show "bem_formado (snd (atualizar_receita i d s v c w))"
    unfolding atualizar_receita_def
    by (rule tenta_inv [OF execute_query_inv assms])
      (simp_all add: bem_formado_def update_transacao_ids)
  show "bem_formado (snd (atualizar_despesa i d s v c w))"
    unfolding atualizar_despesa_def
    by (rule tenta_inv [OF execute_query_inv assms])
      (simp_all add: bem_formado_def update_transacao_ids)
  show "bem_formado (snd (atualizar_meta i d s v c st w))"
    unfolding atualizar_meta_def
    by (rule tenta_inv [OF execute_query_inv assms])
      (simp_all add: bem_formado_def update_meta_ids)
qed

lemma limpa_inv:
  "bem_formado w \<Longrightarrow> bem_formado (w\<lparr>receitas := delete_tudo (receitas w)\<rparr>)"
  "bem_formado w \<Longrightarrow> bem_formado (w\<lparr>despesas := delete_tudo (despesas w)\<rparr>)"
  "bem_formado w \<Longrightarrow> bem_formado (w\<lparr>metas := delete_tudo (metas w)\<rparr>)"
  by (simp_all add: bem_formado_def delete_tudo_def ids_em_ordem_def)

lemma importar_linhas_inv:
  "bem_formado w \<Longrightarrow> bem_formado (snd (importar_receitas rows w))"
  "bem_formado w \<Longrightarrow> bem_formado (snd (importar_despesas rows' w))"
  "bem_formado w \<Longrightarrow> bem_formado (snd (importar_metas ms w))"
proof -
  show "bem_formado w \<Longrightarrow> bem_formado (snd (importar_receitas rows w))"
  proof (induction rows arbitrary: w)
    case Nil
    then show ?case by simp
  next
    case (Cons row rows)
    show ?case
      unfolding importar_receitas.simps
      by (rule entao_inv [OF _ _ Cons.prems]) (simp_all add: adicionar_inv Cons.IH)
  qed
  show "bem_formado w \<Longrightarrow> bem_formado (snd (importar_despesas rows' w))"
  proof (induction rows' arbitrary: w)
    case Nil
    then show ?case by simp
  next
    case (Cons row rows')
    show ?case
      unfolding importar_despesas.simps
      by (rule entao_inv [OF _ _ Cons.prems]) (simp_all add: adicionar_inv Cons.IH)
  qed
  show "bem_formado w \<Longrightarrow> bem_formado (snd (importar_metas ms w))"
  proof (induction ms arbitrary: w)
    case Nil
    then show ?case by simp
  next
    case (Cons row ms)
    show ?case
      unfolding importar_metas.simps
      by (rule entao_inv [OF _ _ Cons.prems]) (simp_all add: adicionar_inv Cons.IH)
  qed
qed

lemma bem_formado_invariante:
  "bem_formado (criar_banco agora fs)"
  "bem_formado w \<Longrightarrow> bem_formado (snd (importar_dados dd w))"
  "bem_formado w \<Longrightarrow> bem_formado (snd (limpar_dados w))"
proof -
  show "bem_formado (criar_banco agora fs)"
    by (simp add: bem_formado_def criar_banco_def tabela_vazia_def ids_em_ordem_def)
  show "bem_formado (snd (importar_dados dd w))" if b: "bem_formado w"
    unfolding importar_dados_def
    by (rule tenta_inv [OF _ b])
      (intro entao_inv execute_query_inv limpa_inv importar_linhas_inv; assumption)
  show "bem_formado (snd (limpar_dados w))" if b: "bem_formado w"
    unfolding limpar_dados_def
    by (rule tenta_inv [OF _ b])
      (intro entao_inv execute_query_inv limpa_inv; assumption)
qed

section \<open>Totals\<close>



section \<open>Expense percentage\<close>

text \<open>
  Claim C5. For every expense total the percentage of expenses over an income total of 0
  is 0, and for every income total above 0 it is the expense total divided by the income
  total, times 100. Both places that compute it agree: the dashboard of \<open>app.py\<close> and
  \<open>obter_estatisticas_gerais\<close>, whose field is the guarded quotient of its own totals.
\<close>

theorem percentual_guardado:
  "percentual_despesas_de x 0 = 0
   \<and> dashboard_percentual_despesas x 0 = 0
   \<and> (0 < tr \<longrightarrow> percentual_despesas_de td tr = td / tr * 100)
   \<and> (0 < tr \<longrightarrow> dashboard_percentual_despesas td tr = td / tr * 100)
   \<and> percentual_despesas (obter_estatisticas_gerais i f w)
       = percentual_despesas_de (total_despesas (obter_estatisticas_gerais i f w))
           (total_receitas (obter_estatisticas_gerais i f w))"
  by (simp add: percentual_despesas_de_def dashboard_percentual_despesas_def
      obter_estatisticas_gerais_def Let_def)

theorem percentual_guardado_witness:
  "(0::rat) < 5000
   \<and> percentual_despesas_de 1200 5000 = 24
   \<and> dashboard_percentual_despesas 1200 5000 = 24
   \<and> percentual_despesas_de 1200 0 = 0
   \<and> dashboard_percentual_despesas 1200 0 = 0
   \<and> percentual_despesas (obter_estatisticas_gerais None None (criar_banco 0 [])) = 0"
proof -
  have z: "total_receitas (obter_estatisticas_gerais None None (criar_banco 0 [])) = 0"
    by (simp add: obter_estatisticas_gerais_def Let_def total_da_consulta_sum criar_banco_def
        tabela_vazia_def)
  show ?thesis
    using percentual_guardado [where x = 1200 and tr = 5000 and td = 1200 and i = None
        and f = None and w = "criar_banco 0 []"]
    by (simp add: z percentual_despesas_de_def)
qed

section \<open>Goal progress\<close>

text \<open>
  Claim C3. For every goal, the savings are the sum of the income amounts dated no later
  than the goal's deadline minus the sum of the expense amounts dated no later than it;
  the progress is 0 when the target is not positive and otherwise the smaller of
  savings / target * 100 and 100. So the progress never exceeds 100, and it has no floor:
  with a positive target and negative savings it is negative. The loop stores exactly
  these two values for each row of the goal frame.
\<close>

theorem progresso_da_meta:
  "economias rs ds g
     = sum_list (map r_valor (filter (\<lambda>r. r_data r \<le> r_data g) rs))
       - sum_list (map r_valor (filter (\<lambda>r. r_data r \<le> r_data g) ds))
   \<and> progresso rs ds g
     = (if r_valor g \<le> 0 then 0 else min (economias rs ds g / r_valor g * 100) 100)
   \<and> progresso rs ds g \<le> 100
   \<and> (0 < r_valor g \<and> economias rs ds g < 0 \<longrightarrow> progresso rs ds g < 0)
   \<and> metas_com_progresso rs ds ms
     = map (\<lambda>m. (m, progresso rs ds m, economias rs ds m)) ms"
proof -
  have a: "economias rs ds g
     = sum_list (map r_valor (filter (\<lambda>r. r_data r \<le> r_data g) rs))
       - sum_list (map r_valor (filter (\<lambda>r. r_data r \<le> r_data g) ds))"
    by (simp add: economias_def receitas_ate_meta_def despesas_ate_meta_def)
  have b: "progresso rs ds g
     = (if r_valor g \<le> 0 then 0 else min (economias rs ds g / r_valor g * 100) 100)"
    by (simp add: progresso_def not_le)
  have c: "progresso rs ds g \<le> 100"
    by (simp add: progresso_def)
  have d: "progresso rs ds g < 0" if "0 < r_valor g" "economias rs ds g < 0"
  proof -
    have "economias rs ds g / r_valor g < 0"
      using that by (simp add: divide_neg_pos)
    then have "economias rs ds g / r_valor g * 100 < 0"
      by (rule mult_neg_pos) simp
    then show ?thesis using that by (simp add: progresso_def min_def)
  qed
  have e: "metas_com_progresso rs ds ms
     = map (\<lambda>m. (m, progresso rs ds m, economias rs ds m)) ms"
    by (simp add: metas_com_progresso_def)
  from a b c d e show ?thesis by blast
qed

theorem progresso_da_meta_witness:
  "0 < r_valor ex_meta \<and> economias ex_despesas_df ex_receitas_df ex_meta < 0
   \<and> progresso ex_despesas_df ex_receitas_df ex_meta < 0
   \<and> economias ex_receitas_df ex_despesas_df ex_meta = 3800
   \<and> progresso ex_receitas_df ex_despesas_df ex_meta = 95
   \<and> progresso ex_receitas_df ex_despesas_df ex_meta_pequena = 100"
proof -
  have e1: "economias ex_despesas_df ex_receitas_df ex_meta = - 3800"
    by (simp add: economias_def receitas_ate_meta_def despesas_ate_meta_def
        ex_receitas_df_def ex_despesas_df_def ex_meta_def ex_meta_pequena_def)
  have e2: "economias ex_receitas_df ex_despesas_df ex_meta = 3800"
    by (simp add: economias_def receitas_ate_meta_def despesas_ate_meta_def
        ex_receitas_df_def ex_despesas_df_def ex_meta_def ex_meta_pequena_def)
  have e3: "economias ex_receitas_df ex_despesas_df ex_meta_pequena = 3800"
    by (simp add: economias_def receitas_ate_meta_def despesas_ate_meta_def
        ex_receitas_df_def ex_despesas_df_def ex_meta_def ex_meta_pequena_def)
  have v: "r_valor ex_meta = 4000" "r_valor ex_meta_pequena = 1000"
    by (simp_all add: ex_meta_def ex_meta_pequena_def)
  show ?thesis
    using progresso_da_meta [of ex_despesas_df ex_receitas_df ex_meta "[]"]
      progresso_da_meta [of ex_receitas_df ex_despesas_df ex_meta "[]"]
      progresso_da_meta [of ex_receitas_df ex_despesas_df ex_meta_pequena "[]"]
    by (simp add: e1 e2 e3 v)
qed

section \<open>Adding records\<close>

text \<open>
  Claim C1, as stated, fails: the add methods hand their arguments to the \<open>INSERT\<close>
  unchecked. On a fresh store an income with an empty description and the amount -5, an
  expense with an empty description and the amount 0, and a goal with an empty
  description and the target -5 are each stored, and each call returns the id 1.
\<close>

theorem adicionar_aceita_invalido:
  "fst (adicionar_receita 738895 '''' (- 5) ''Outros'' (criar_banco 0 [])) = Inr 1
   \<and> map t_descricao (linhas (receitas (snd (adicionar_receita 738895 '''' (- 5) ''Outros''
         (criar_banco 0 []))))) = ['''']
   \<and> map t_valor (linhas (receitas (snd (adicionar_receita 738895 '''' (- 5) ''Outros''
         (criar_banco 0 []))))) = [- 5]
   \<and> fst (adicionar_despesa 738895 '''' 0 ''Outros'' (criar_banco 0 [])) = Inr 1
   \<and> map t_valor (linhas (despesas (snd (adicionar_despesa 738895 '''' 0 ''Outros''
         (criar_banco 0 []))))) = [0]
   \<and> fst (adicionar_meta 738946 '''' (- 5) ''Outros'' (criar_banco 0 [])) = Inr 1
   \<and> map m_valor_meta (linhas (metas (snd (adicionar_meta 738946 '''' (- 5) ''Outros''
         (criar_banco 0 []))))) = [- 5]"
  by (simp add: bd_defs)

text \<open>
  Claim C1, amended. The add methods of the store validate nothing. For every input, an
  empty description or a non-positive amount included, a call that meets no storage error
  appends exactly one record holding the given fields (a goal with the status \<open>ativa\<close>),
  leaves everything else as it was, and returns the id of that record, which is larger
  than every id in the table and larger than the table's counter.
\<close>

theorem adicionar_insere_sem_validar:
  assumes "falhas w = []"
    and "nr = proximo_id (map t_id (linhas (receitas w))) (seq (receitas w))"
    and "nd = proximo_id (map t_id (linhas (despesas w))) (seq (despesas w))"
    and "nm = proximo_id (map m_id (linhas (metas w))) (seq (metas w))"
  shows "adicionar_receita d s v c w =
      (Inr nr,
       w\<lparr>receitas :=
           \<lparr>linhas = linhas (receitas w) @
              [\<lparr>t_id = nr, t_data = d, t_descricao = s, t_valor = v, t_categoria = c,
                t_created_at = relogio w, t_updated_at = relogio w\<rparr>],
            seq = nr\<rparr>\<rparr>)
    \<and> (\<forall>r \<in> set (linhas (receitas w)). t_id r < nr) \<and> seq (receitas w) < nr
    \<and> adicionar_despesa d s v c w =
      (Inr nd,
       w\<lparr>despesas :=
           \<lparr>linhas = linhas (despesas w) @
              [\<lparr>t_id = nd, t_data = d, t_descricao = s, t_valor = v, t_categoria = c,
                t_created_at = relogio w, t_updated_at = relogio w\<rparr>],
            seq = nd\<rparr>\<rparr>)
    \<and> (\<forall>r \<in> set (linhas (despesas w)). t_id r < nd) \<and> seq (despesas w) < nd
    \<and> adicionar_meta d s v c w =
      (Inr nm,
       w\<lparr>metas :=
           \<lparr>linhas = linhas (metas w) @
              [\<lparr>m_id = nm, m_data_limite = d, m_descricao = s, m_valor_meta = v,
                m_categoria = c, m_status = ''ativa'',
                m_created_at = relogio w, m_updated_at = relogio w\<rparr>],
            seq = nm\<rparr>\<rparr>)
    \<and> (\<forall>r \<in> set (linhas (metas w)). m_id r < nm) \<and> seq (metas w) < nm"
proof -
  note ins = execute_insert_ok [OF assms(1)]
  have r: "adicionar_receita d s v c w =
      (Inr nr,
       w\<lparr>receitas :=
           \<lparr>linhas = linhas (receitas w) @
              [\<lparr>t_id = nr, t_data = d, t_descricao = s, t_valor = v, t_categoria = c,
                t_created_at = relogio w, t_updated_at = relogio w\<rparr>],
            seq = nr\<rparr>\<rparr>)"
    by (simp add: adicionar_receita_def ins insert_transacao_def Let_def assms(2))
  have dd: "adicionar_despesa d s v c w =
      (Inr nd,
       w\<lparr>despesas :=
           \<lparr>linhas = linhas (despesas w) @
              [\<lparr>t_id = nd, t_data = d, t_descricao = s, t_valor = v, t_categoria = c,
                t_created_at = relogio w, t_updated_at = relogio w\<rparr>],
            seq = nd\<rparr>\<rparr>)"
    by (simp add: adicionar_despesa_def ins insert_transacao_def Let_def assms(3))
  have m: "adicionar_meta d s v c w =
      (Inr nm,
       w\<lparr>metas :=
           \<lparr>linhas = linhas (metas w) @
              [\<lparr>m_id = nm, m_data_limite = d, m_descricao = s, m_valor_meta = v,
                m_categoria = c, m_status = ''ativa'',
                m_created_at = relogio w, m_updated_at = relogio w\<rparr>],
            seq = nm\<rparr>\<rparr>)"
    by (simp add: adicionar_meta_def ins insert_meta_def Let_def assms(4))
  have fr: "\<forall>r \<in> set (linhas (receitas w)). t_id r < nr"
    unfolding assms(2) by (auto intro: proximo_id_novo)
  have fd: "\<forall>r \<in> set (linhas (despesas w)). t_id r < nd"
    unfolding assms(3) by (auto intro: proximo_id_novo)
  have fm: "\<forall>r \<in> set (linhas (metas w)). m_id r < nm"
    unfolding assms(4) by (auto intro: proximo_id_novo)
  have sr: "seq (receitas w) < nr" "seq (despesas w) < nd" "seq (metas w) < nm"
    unfolding assms(2,3,4) by (rule proximo_id_maior)+
  from r dd m fr fd fm sr show ?thesis by blast
qed

theorem adicionar_insere_sem_validar_witness:
  "falhas ex_mundo = []
   \<and> map t_id (linhas (receitas ex_mundo)) = [1, 2]
   \<and> fst (adicionar_receita 738895 '''' (- 5) ''Outros'' ex_mundo) = Inr 3
   \<and> length (linhas (receitas (snd (adicionar_receita 738895 '''' (- 5) ''Outros'' ex_mundo)))) = 3
   \<and> fst (adicionar_meta 738946 ''Casa'' 9000 ''Compras'' ex_mundo) = Inr 2
   \<and> map m_status (linhas (metas (snd (adicionar_meta 738946 ''Casa'' 9000 ''Compras'' ex_mundo))))
       = [''concluida'', ''ativa'']"
proof -
  have h: "falhas ex_mundo = []" by (simp add: ex_mundo_def)
  have nr: "proximo_id (map t_id (linhas (receitas ex_mundo))) (seq (receitas ex_mundo)) = 3"
    by (simp add: proximo_id_def ex_bd_defs)
  have nm: "proximo_id (map m_id (linhas (metas ex_mundo))) (seq (metas ex_mundo)) = 2"
    by (simp add: proximo_id_def ex_bd_defs)
  have l: "length (linhas (receitas ex_mundo)) = 2"
    "map m_status (linhas (metas ex_mundo)) = [''concluida'']"
    by (simp_all add: ex_bd_defs)
  have ids: "map t_id (linhas (receitas ex_mundo)) = [1, 2]"
    by (simp add: ex_bd_defs)
  have "falhas ex_mundo = []
   \<and> fst (adicionar_receita 738895 '''' (- 5) ''Outros'' ex_mundo) = Inr 3
   \<and> length (linhas (receitas (snd (adicionar_receita 738895 '''' (- 5) ''Outros'' ex_mundo)))) = 3
   \<and> fst (adicionar_meta 738946 ''Casa'' 9000 ''Compras'' ex_mundo) = Inr 2
   \<and> map m_status (linhas (metas (snd (adicionar_meta 738946 ''Casa'' 9000 ''Compras'' ex_mundo))))
       = [''concluida'', ''ativa'']"
    using h l adicionar_insere_sem_validar [OF h refl refl refl, of 738895 "[]" "- 5" "''Outros''"]
      adicionar_insere_sem_validar [OF h refl refl refl, of 738946 "''Casa''" 9000 "''Compras''"]
    by (simp add: nr nm)
  with ids show ?thesis by blast
qed

section \<open>Deleting and updating by id\<close>

text \<open>
  Claim C2, as stated, fails: on a store that holds no record with the id 7, deleting or
  updating that id answers \<open>True\<close>; no method looks at the number of affected rows.
\<close>

theorem excluir_ausente_devolve_true:
  "excluir_receita 7 (criar_banco 0 []) = (True, criar_banco 0 [])
   \<and> atualizar_receita 7 738895 ''Salario'' 5000 ''Salario'' (criar_banco 0 [])
       = (True, criar_banco 0 [])
   \<and> excluir_meta 7 (criar_banco 0 []) = (True, criar_banco 0 [])"
  by (simp add: bd_defs)

text \<open>
  Claim C2, amended. When no storage error occurs, deleting or updating an id that the
  table does not hold answers \<open>True\<close> and leaves the store unchanged. Deleting any id
  answers \<open>True\<close>; no frame listed from the resulting state, whatever the filters, holds a
  record with that id; and deleting the same id again answers \<open>True\<close> and changes nothing.
\<close>

theorem excluir_atualizar_id_ausente:
  assumes "falhas w = []"
  shows "(i \<notin> set (map t_id (linhas (receitas w))) \<longrightarrow>
            excluir_receita i w = (True, w) \<and> atualizar_receita i d s v c w = (True, w))
    \<and> (i \<notin> set (map t_id (linhas (despesas w))) \<longrightarrow>
            excluir_despesa i w = (True, w) \<and> atualizar_despesa i d s v c w = (True, w))
    \<and> (i \<notin> set (map m_id (linhas (metas w))) \<longrightarrow>
            excluir_meta i w = (True, w) \<and> atualizar_meta i d s v c st w = (True, w))
    \<and> fst (excluir_receita i w) = True
    \<and> (obter_receitas di df cat (snd (excluir_receita i w)) qt \<longrightarrow> i \<notin> set (map t_id qt))
    \<and> excluir_receita i (snd (excluir_receita i w)) = (True, snd (excluir_receita i w))
    \<and> fst (excluir_despesa i w) = True
    \<and> (obter_despesas di df cat (snd (excluir_despesa i w)) qt \<longrightarrow> i \<notin> set (map t_id qt))
    \<and> excluir_despesa i (snd (excluir_despesa i w)) = (True, snd (excluir_despesa i w))
    \<and> fst (excluir_meta i w) = True
    \<and> (obter_metas st' cat (snd (excluir_meta i w)) qm \<longrightarrow> i \<notin> set (map m_id qm))
    \<and> excluir_meta i (snd (excluir_meta i w)) = (True, snd (excluir_meta i w))"
proof -
  note f = assms
  have a1: "excluir_receita i w = (True, w) \<and> atualizar_receita i d s v c w = (True, w)"
    if "i \<notin> set (map t_id (linhas (receitas w)))"
    using that by (simp add: excluir_receita_ok [OF f] atualizar_receita_ok [OF f]
        delete_transacao_ausente update_transacao_ausente)
  have a2: "excluir_despesa i w = (True, w) \<and> atualizar_despesa i d s v c w = (True, w)"
    if "i \<notin> set (map t_id (linhas (despesas w)))"
    using that by (simp add: excluir_despesa_ok [OF f] atualizar_despesa_ok [OF f]
        delete_transacao_ausente update_transacao_ausente)
  have a3: "excluir_meta i w = (True, w) \<and> atualizar_meta i d s v c st w = (True, w)"
    if "i \<notin> set (map m_id (linhas (metas w)))"
    using that by (simp add: excluir_meta_ok [OF f] atualizar_meta_ok [OF f]
        delete_meta_ausente update_meta_ausente)
  have b1: "fst (excluir_receita i w) = True" by (simp add: excluir_receita_ok [OF f])
  have b2: "fst (excluir_despesa i w) = True" by (simp add: excluir_despesa_ok [OF f])
  have b3: "fst (excluir_meta i w) = True" by (simp add: excluir_meta_ok [OF f])
  have c1: "i \<notin> set (map t_id qt)" if "obter_receitas di df cat (snd (excluir_receita i w)) qt"
  proof (rule quadro_sem_id)
    show "mset qt = mset (filter (filtro_transacao di df cat)
        (linhas (delete_transacao i (receitas w))))"
      using that by (simp add: obter_receitas_def excluir_receita_ok [OF f])
    show "i \<notin> set (map t_id (linhas (delete_transacao i (receitas w))))"
      by (rule delete_transacao_remove)
  qed
  have c2: "i \<notin> set (map t_id qt)" if "obter_despesas di df cat (snd (excluir_despesa i w)) qt"
  proof (rule quadro_sem_id)
    show "mset qt = mset (filter (filtro_transacao di df cat)
        (linhas (delete_transacao i (despesas w))))"
      using that by (simp add: obter_despesas_def excluir_despesa_ok [OF f])
    show "i \<notin> set (map t_id (linhas (delete_transacao i (despesas w))))"
      by (rule delete_transacao_remove)
  qed
  have c3: "i \<notin> set (map m_id qm)" if "obter_metas st' cat (snd (excluir_meta i w)) qm"
  proof (rule quadro_sem_id)
    show "mset qm = mset (filter (filtro_meta st' cat) (linhas (delete_meta i (metas w))))"
      using that by (simp add: obter_metas_def excluir_meta_ok [OF f])
    show "i \<notin> set (map m_id (linhas (delete_meta i (metas w))))"
      by (rule delete_meta_remove)
  qed
  have d1: "excluir_receita i (snd (excluir_receita i w)) = (True, snd (excluir_receita i w))"
    using f by (simp add: excluir_receita_ok delete_transacao_def)
  have d2: "excluir_despesa i (snd (excluir_despesa i w)) = (True, snd (excluir_despesa i w))"
    using f by (simp add: excluir_despesa_ok delete_transacao_def)
  have d3: "excluir_meta i (snd (excluir_meta i w)) = (True, snd (excluir_meta i w))"
    using f by (simp add: excluir_meta_ok delete_meta_def)
  from a1 a2 a3 b1 b2 b3 c1 c2 c3 d1 d2 d3 show ?thesis by blast
qed

theorem excluir_atualizar_id_ausente_witness:
  "falhas ex_mundo = []
   \<and> 7 \<notin> set (map t_id (linhas (receitas ex_mundo)))
   \<and> excluir_receita 7 ex_mundo = (True, ex_mundo)
   \<and> atualizar_receita 7 738895 ''Salario'' 5000 ''Salario'' ex_mundo = (True, ex_mundo)
   \<and> 7 \<notin> set (map t_id (linhas (despesas ex_mundo)))
   \<and> excluir_despesa 7 ex_mundo = (True, ex_mundo)
   \<and> 7 \<notin> set (map m_id (linhas (metas ex_mundo)))
   \<and> excluir_meta 7 ex_mundo = (True, ex_mundo)
   \<and> obter_receitas None None None (snd (excluir_receita 1 ex_mundo)) [ex_receita2]
   \<and> 1 \<notin> set (map t_id [ex_receita2])
   \<and> obter_despesas None None None (snd (excluir_despesa 1 ex_mundo)) [ex_despesa2]
   \<and> obter_metas None None (snd (excluir_meta 1 ex_mundo)) []"
proof -
  have h: "falhas ex_mundo = []" by (simp add: ex_mundo_def)
  have a: "7 \<notin> set (map t_id (linhas (receitas ex_mundo)))"
    "7 \<notin> set (map t_id (linhas (despesas ex_mundo)))"
    "7 \<notin> set (map m_id (linhas (metas ex_mundo)))"
    by (simp_all add: ex_bd_defs)
  have q: "obter_receitas None None None (snd (excluir_receita 1 ex_mundo)) [ex_receita2]"
    "obter_despesas None None None (snd (excluir_despesa 1 ex_mundo)) [ex_despesa2]"
    "obter_metas None None (snd (excluir_meta 1 ex_mundo)) []"
    by (simp_all add: obter_receitas_def obter_despesas_def obter_metas_def
        filtro_transacao_def filtro_meta_def bd_defs ex_bd_defs)
  show ?thesis
    using h a q
      excluir_atualizar_id_ausente [OF h, of 7 738895 "''Salario''" 5000 "''Salario''" None
        None None None "[]" None "[]"]
      excluir_atualizar_id_ausente [OF h, of 1 738895 "''Salario''" 5000 "''Salario''" None
        None None None "[ex_receita2]" None "[]"]
    by simp
qed

section \<open>Storage errors\<close>

text \<open>
  Claim C4, as stated, fails for the calls that run several statements: each statement
  is committed on its own. When the second \<open>DELETE\<close> of \<open>importar_dados\<close> or of
  \<open>limpar_dados\<close> raises, the method answers \<open>False\<close> and the incomes are already gone.
\<close>

theorem importar_dados_parcial:
  "importar_dados ex_dados (ex_mundo\<lparr>falhas := [False, True]\<rparr>)
     = (False, ex_mundo\<lparr>receitas := \<lparr>linhas = [], seq = 2\<rparr>\<rparr>)
   \<and> persistido (snd (importar_dados ex_dados (ex_mundo\<lparr>falhas := [False, True]\<rparr>)))
       \<noteq> persistido (ex_mundo\<lparr>falhas := [False, True]\<rparr>)
   \<and> limpar_dados (ex_mundo\<lparr>falhas := [False, True]\<rparr>)
     = (False, ex_mundo\<lparr>receitas := \<lparr>linhas = [], seq = 2\<rparr>\<rparr>)"
  by (simp add: bd_defs ex_bd_defs ex_dados_def)

text \<open>
  Claim C4, amended. A call whose first statement meets a storage error leaves the
  persisted tables exactly as they were: the add methods raise the error, the delete,
  update, import and clear methods answer \<open>False\<close>. For the add, delete and update
  methods that statement is the only one, so they never write partially. The store
  validates nothing, so no mutation is ever refused or cut short on validation grounds.
\<close>

theorem falha_nao_altera:
  assumes "falhas w = True # fs"
  shows "adicionar_receita d s v c w = (Inl ErroArmazenamento, w\<lparr>falhas := fs\<rparr>)
    \<and> adicionar_despesa d s v c w = (Inl ErroArmazenamento, w\<lparr>falhas := fs\<rparr>)
    \<and> adicionar_meta d s v c w = (Inl ErroArmazenamento, w\<lparr>falhas := fs\<rparr>)
    \<and> excluir_receita i w = (False, w\<lparr>falhas := fs\<rparr>)
    \<and> excluir_despesa i w = (False, w\<lparr>falhas := fs\<rparr>)
    \<and> excluir_meta i w = (False, w\<lparr>falhas := fs\<rparr>)
    \<and> atualizar_receita i d s v c w = (False, w\<lparr>falhas := fs\<rparr>)
    \<and> atualizar_despesa i d s v c w = (False, w\<lparr>falhas := fs\<rparr>)
    \<and> atualizar_meta i d s v c st w = (False, w\<lparr>falhas := fs\<rparr>)
    \<and> importar_dados dd w = (False, w\<lparr>falhas := fs\<rparr>)
    \<and> limpar_dados w = (False, w\<lparr>falhas := fs\<rparr>)
    \<and> persistido (w\<lparr>falhas := fs\<rparr>) = persistido w"
proof -
  note q = execute_query_falha [OF assms]
  note ins = execute_insert_falha [OF assms]
  have a: "adicionar_receita d s v c w = (Inl ErroArmazenamento, w\<lparr>falhas := fs\<rparr>)"
    "adicionar_despesa d s v c w = (Inl ErroArmazenamento, w\<lparr>falhas := fs\<rparr>)"
    "adicionar_meta d s v c w = (Inl ErroArmazenamento, w\<lparr>falhas := fs\<rparr>)"
    by (simp_all add: adicionar_receita_def adicionar_despesa_def adicionar_meta_def ins)
  have e: "excluir_receita i w = (False, w\<lparr>falhas := fs\<rparr>)"
    "excluir_despesa i w = (False, w\<lparr>falhas := fs\<rparr>)"
    "excluir_meta i w = (False, w\<lparr>falhas := fs\<rparr>)"
    by (simp_all add: excluir_receita_def excluir_despesa_def excluir_meta_def tenta_def q)
  have u: "atualizar_receita i d s v c w = (False, w\<lparr>falhas := fs\<rparr>)"
    "atualizar_despesa i d s v c w = (False, w\<lparr>falhas := fs\<rparr>)"
    "atualizar_meta i d s v c st w = (False, w\<lparr>falhas := fs\<rparr>)"
    by (simp_all add: atualizar_receita_def atualizar_despesa_def atualizar_meta_def tenta_def q)
  have m: "importar_dados dd w = (False, w\<lparr>falhas := fs\<rparr>)"
    "limpar_dados w = (False, w\<lparr>falhas := fs\<rparr>)"
    by (simp_all add: importar_dados_def limpar_dados_def tenta_def entao_def q)
  from a e u m persistido_falhas show ?thesis by blast
qed

theorem falha_nao_altera_witness:
  "falhas (ex_mundo\<lparr>falhas := [True]\<rparr>) = True # []
   \<and> adicionar_receita 738895 ''Bonus'' 100 ''Outros'' (ex_mundo\<lparr>falhas := [True]\<rparr>)
       = (Inl ErroArmazenamento, ex_mundo)
   \<and> excluir_receita 1 (ex_mundo\<lparr>falhas := [True]\<rparr>) = (False, ex_mundo)
   \<and> atualizar_meta 1 738946 ''Viagem'' 10 ''Viagem'' None (ex_mundo\<lparr>falhas := [True]\<rparr>)
       = (False, ex_mundo)
   \<and> importar_dados ex_dados (ex_mundo\<lparr>falhas := [True]\<rparr>) = (False, ex_mundo)
   \<and> persistido ex_mundo = persistido (ex_mundo\<lparr>falhas := [True]\<rparr>)"
proof -
  have h: "falhas (ex_mundo\<lparr>falhas := [True]\<rparr>) = True # []" by simp
  have e: "ex_mundo\<lparr>falhas := []\<rparr> = ex_mundo" by (simp add: ex_mundo_def)
  show ?thesis
    using h falha_nao_altera [OF h, of 738895 "''Bonus''" 100 "''Outros''" 1 None ex_dados]
      falha_nao_altera [OF h, of 738946 "''Viagem''" 10 "''Viagem''" 1 None ex_dados]
    by (simp add: e)
qed

section \<open>Order of the listings\<close>




section \<open>Totals per category\<close>




section \<open>Export followed by import\<close>

text \<open>
  Claim C10. \<open>importar_dados\<close> deletes every income, expense and goal and then adds the
  rows of the dataset through the add methods. So, when no storage error occurs, each
  table afterwards holds exactly the rows of the dataset with their date, description,
  amount and category, in the order of the frame; every id in it is larger than the
  table's counter before the call and therefore none of the ids the table held; and every
  goal has the status \<open>ativa\<close>. Hence importing what \<open>exportar_dados\<close> has just returned
  keeps the date, description, amount and category of every record and keeps neither an
  id nor a goal status other than \<open>ativa\<close>. The hypothesis on the ids holds in every
  state reached from \<open>criar_banco\<close> (lemmas \<open>adicionar_inv\<close>, \<open>excluir_inv\<close>,
  \<open>atualizar_inv\<close>, \<open>bem_formado_invariante\<close>).
\<close>

theorem exportar_importar_renumera:
  assumes "falhas w = []" and "bem_formado w"
  shows "fst (importar_dados d w) = True
    \<and> map campos_transacao (linhas (receitas (snd (importar_dados d w))))
        = map campos_transacao (quadro (d_receitas d))
    \<and> map campos_transacao (linhas (despesas (snd (importar_dados d w))))
        = map campos_transacao (quadro (d_despesas d))
    \<and> map campos_meta (linhas (metas (snd (importar_dados d w))))
        = map campos_meta (quadro (d_metas d))
    \<and> (\<forall>r \<in> set (linhas (receitas (snd (importar_dados d w)))).
          seq (receitas w) < t_id r \<and> t_id r \<notin> set (map t_id (linhas (receitas w))))
    \<and> (\<forall>r \<in> set (linhas (despesas (snd (importar_dados d w)))).
          seq (despesas w) < t_id r \<and> t_id r \<notin> set (map t_id (linhas (despesas w))))
    \<and> (\<forall>r \<in> set (linhas (metas (snd (importar_dados d w)))).
          seq (metas w) < m_id r \<and> m_id r \<notin> set (map m_id (linhas (metas w)))
          \<and> m_status r = ''ativa'')
    \<and> (exportar_dados w d \<longrightarrow>
          mset (map campos_transacao (linhas (receitas (snd (importar_dados d w)))))
            = mset (map campos_transacao (linhas (receitas w)))
          \<and> mset (map campos_transacao (linhas (despesas (snd (importar_dados d w)))))
            = mset (map campos_transacao (linhas (despesas w)))
          \<and> mset (map campos_meta (linhas (metas (snd (importar_dados d w)))))
            = mset (map campos_meta (linhas (metas w))))"
proof -
  note i = importar_dados_ok [OF assms(1), of d]
  have bf: "ids_em_ordem (map t_id (linhas (receitas w))) (seq (receitas w))"
    "ids_em_ordem (map t_id (linhas (despesas w))) (seq (despesas w))"
    "ids_em_ordem (map m_id (linhas (metas w))) (seq (metas w))"
    using assms(2) by (simp_all add: bem_formado_def)
  have a: "fst (importar_dados d w) = True" by (simp add: i)
  have c1: "map campos_transacao (linhas (receitas (snd (importar_dados d w))))
        = map campos_transacao (quadro (d_receitas d))"
    by (simp add: i campos_inserir_transacoes delete_tudo_def)
  have c2: "map campos_transacao (linhas (despesas (snd (importar_dados d w))))
        = map campos_transacao (quadro (d_despesas d))"
    by (simp add: i campos_inserir_transacoes delete_tudo_def)
  have c3: "map campos_meta (linhas (metas (snd (importar_dados d w))))
        = map campos_meta (quadro (d_metas d))"
    by (simp add: i campos_inserir_metas delete_tudo_def)
  have n1: "\<forall>r \<in> set (linhas (receitas (snd (importar_dados d w)))).
          seq (receitas w) < t_id r \<and> t_id r \<notin> set (map t_id (linhas (receitas w)))"
    unfolding i using novos_ids_transacoes [OF _ bf(1)] by simp
  have n2: "\<forall>r \<in> set (linhas (despesas (snd (importar_dados d w)))).
          seq (despesas w) < t_id r \<and> t_id r \<notin> set (map t_id (linhas (despesas w)))"
    unfolding i using novos_ids_transacoes [OF _ bf(2)] by simp
  have n3: "\<forall>r \<in> set (linhas (metas (snd (importar_dados d w)))).
          seq (metas w) < m_id r \<and> m_id r \<notin> set (map m_id (linhas (metas w)))
          \<and> m_status r = ''ativa''"
    unfolding i using novos_ids_metas [OF _ bf(3)] by simp
  have e: "mset (map campos_transacao (linhas (receitas (snd (importar_dados d w)))))
            = mset (map campos_transacao (linhas (receitas w)))
          \<and> mset (map campos_transacao (linhas (despesas (snd (importar_dados d w)))))
            = mset (map campos_transacao (linhas (despesas w)))
          \<and> mset (map campos_meta (linhas (metas (snd (importar_dados d w)))))
            = mset (map campos_meta (linhas (metas w)))"
    if x: "exportar_dados w d"
    unfolding c1 c2 c3 using quadro_exportado [OF x] by (simp only: mset_map)
  from a c1 c2 c3 n1 n2 n3 e show ?thesis by blast
qed

theorem exportar_importar_renumera_witness:
  "falhas ex_mundo = [] \<and> bem_formado ex_mundo \<and> exportar_dados ex_mundo ex_dados
   \<and> fst (importar_dados ex_dados ex_mundo) = True
   \<and> map t_id (linhas (receitas ex_mundo)) = [1, 2]
   \<and> map t_id (linhas (receitas (snd (importar_dados ex_dados ex_mundo)))) = [3, 4]
   \<and> map m_id (linhas (metas (snd (importar_dados ex_dados ex_mundo)))) = [2]
   \<and> map m_status (linhas (metas ex_mundo)) = [''concluida'']
   \<and> map m_status (linhas (metas (snd (importar_dados ex_dados ex_mundo)))) = [''ativa'']
   \<and> map campos_transacao (linhas (receitas (snd (importar_dados ex_dados ex_mundo))))
       = map campos_transacao (linhas (receitas ex_mundo))"
proof -
  have h: "falhas ex_mundo = []" by (simp add: ex_mundo_def)
  have b: "bem_formado ex_mundo"
    by (simp add: bem_formado_def ids_em_ordem_def ex_bd_defs)
  have x: "exportar_dados ex_mundo ex_dados"
    by (simp add: exportar_dados_def obter_receitas_def obter_despesas_def obter_metas_def
        filtro_transacao_def filtro_meta_def ex_bd_defs ex_dados_def)
  have q: "quadro (d_receitas ex_dados) = linhas (receitas ex_mundo)"
    by (simp add: quadro_def ex_bd_defs ex_dados_def)
  have ev: "map t_id (linhas (receitas ex_mundo)) = [1, 2]"
    "map t_id (linhas (receitas (snd (importar_dados ex_dados ex_mundo)))) = [3, 4]"
    "map m_id (linhas (metas (snd (importar_dados ex_dados ex_mundo)))) = [2]"
    "map m_status (linhas (metas ex_mundo)) = [''concluida'']"
    "map m_status (linhas (metas (snd (importar_dados ex_dados ex_mundo)))) = [''ativa'']"
    by (simp_all add: bd_defs ex_bd_defs ex_dados_def campos_transacao_def campos_meta_def)
  have t: "fst (importar_dados ex_dados ex_mundo) = True
    \<and> map campos_transacao (linhas (receitas (snd (importar_dados ex_dados ex_mundo))))
        = map campos_transacao (quadro (d_receitas ex_dados))"
    using exportar_importar_renumera [OF h b, of ex_dados] by blast
  from h b x ev t show ?thesis by (simp only: q)
qed

end
